theory Spec2Isabelle
  imports Complex_Main "HOL-Library.AList"
begin

section \<open>Python values of the DevTerm CUPS label plugin\<close>

text \<open>
  The plugin is one Python class, \<^verbatim>\<open>InvenTreeDevtermCupsPlugin\<close> in
  \<^verbatim>\<open>inventree_printer_plugin/plugin.py\<close>. Its methods are embedded as HOL functions of
  the same names.

  A Python \<^verbatim>\<open>str\<close> is a \<^typ>\<open>string\<close> whose characters are the code points
  U+0000 to U+00FF; \<^verbatim>\<open>bytes\<close> is a list of bytes, also a \<^typ>\<open>char list\<close>. A Python
  \<^verbatim>\<open>float\<close> is its exact rational value, or one of the three special values. A
  \<^verbatim>\<open>dict\<close> is an association list in insertion order: \<^const>\<open>AList.update\<close>
  replaces the value of a key in place and appends a new key at the end, as a Python
  dict does.
\<close>

type_synonym bytes = "char list"

datatype pyfloat = Finite rat | PosInf | NegInf | NaN

datatype pyval = VStr string | VInt int | VBool bool

type_synonym pydict = "(string \<times> pyval) list"

datatype exc_type = ValueError | TypeError | OverflowError | RuntimeError | OSError | IPPError

datatype exn = Exc exc_type string

text \<open>\<^verbatim>\<open>d.update(other)\<close>: the items of \<open>other\<close> are stored in their order.\<close>

definition dict_update :: "pydict \<Rightarrow> pydict \<Rightarrow> pydict" where
  "dict_update d other = fold (\<lambda>(k, v). AList.update k v) other d"

subsection \<open>Builtins: \<^verbatim>\<open>str(int)\<close> and \<^verbatim>\<open>round(float)\<close>\<close>

definition digit_char :: "nat \<Rightarrow> char" where
  "digit_char d = char_of (48 + d)"

fun str_nat :: "nat \<Rightarrow> string" where
  "str_nat n = (if n < 10 then [digit_char n] else str_nat (n div 10) @ [digit_char (n mod 10)])"

declare str_nat.simps [simp del]

definition str_int :: "int \<Rightarrow> string" where
  "str_int i = (if i < 0 then CHR ''-'' # str_nat (nat (- i)) else str_nat (nat i))"

text \<open>
  \<^verbatim>\<open>round(x)\<close> of a float, with no second argument, gives the nearest \<^verbatim>\<open>int\<close>, a
  tie going to the even neighbour. It raises OverflowError on an infinity and ValueError
  on NaN.
\<close>

definition round_half_even :: "rat \<Rightarrow> int" where
  "round_half_even q =
     (let f = \<lfloor>q\<rfloor>; d = q - of_int f
      in if d < 1 / 2 then f
         else if 1 / 2 < d then f + 1
         else if even f then f else f + 1)"

definition py_round :: "pyfloat \<Rightarrow> exn + int" where
  "py_round x =
     (case x of
        Finite q \<Rightarrow> Inr (round_half_even q)
      | NaN \<Rightarrow> Inl (Exc ValueError ''cannot convert float NaN to integer'')
      | _ \<Rightarrow> Inl (Exc OverflowError ''cannot convert float infinity to integer''))"

text \<open>\<^verbatim>\<open>x <= 0\<close> and \<^verbatim>\<open>x / 3.0\<close> on floats; every comparison with NaN is false.\<close>

definition float_le_zero :: "pyfloat \<Rightarrow> bool" where
  "float_le_zero x = (case x of Finite q \<Rightarrow> q \<le> 0 | NegInf \<Rightarrow> True | _ \<Rightarrow> False)"

definition float_gt_zero :: "pyfloat \<Rightarrow> bool" where
  "float_gt_zero x = (case x of Finite q \<Rightarrow> 0 < q | PosInf \<Rightarrow> True | _ \<Rightarrow> False)"

text \<open>
  The quotient \<^verbatim>\<open>feed_after_mm / 3.0\<close> is taken exactly. A binary64 division rounds
  its result to the nearest double, which moves the quotient by less than half a unit in
  the last place; the quotient of a double by three is never that close to a number
  \<open>k + 1/2\<close> with \<open>1 \<le> k \<le> 14\<close> without being equal to it, so the rounding of the
  division never changes the step count computed below.
\<close>

definition float_div3 :: "pyfloat \<Rightarrow> pyfloat" where
  "float_div3 x = (case x of Finite q \<Rightarrow> Finite (q / 3) | y \<Rightarrow> y)"

section \<open>Feed Policy Encoder: \<^verbatim>\<open>_feed_options\<close>\<close>

text \<open>
  \<^verbatim>\<open>steps = max(1, min(15, int(round(feed_after_mm / 3.0))))\<close>: the call of
  \<^verbatim>\<open>round\<close> comes first and can raise.
\<close>

definition feed_steps :: "pyfloat \<Rightarrow> exn + int" where
  "feed_steps feed_after_mm =
     (case py_round (float_div3 feed_after_mm) of
        Inl e \<Rightarrow> Inl e
      | Inr r \<Rightarrow> Inr (max 1 (min 15 r)))"

definition feed_options :: "pyfloat \<Rightarrow> exn + pydict" where
  "feed_options feed_after_mm =
     (if float_le_zero feed_after_mm then Inr [(''FeedWhere'', VStr ''None'')]
      else case feed_steps feed_after_mm of
        Inl e \<Rightarrow> Inl e
      | Inr steps \<Rightarrow>
          (let dist_mm = steps * 3;
               dist_key = str_int (steps - 1) @ ''feed'' @ str_int dist_mm @ ''mm''
           in Inr [(''FeedWhere'', VStr ''AfterJob''), (''FeedDist'', VStr dist_key)]))"

text \<open>The step count as the specification words it: round, then clamp to 1..15.\<close>

definition spec_steps :: "rat \<Rightarrow> int" where
  "spec_steps mm =
     (let r = round_half_even (mm / 3) in if r < 1 then 1 else if 15 < r then 15 else r)"

section \<open>Builtins on strings\<close>

text \<open>
  \<^verbatim>\<open>str.isspace\<close>, on the code points below 256: the controls 9 to 13 and 28 to 31,
  the space, NEL (0x85) and the no-break space (0xA0).
\<close>

definition isspace :: "char \<Rightarrow> bool" where
  "isspace c =
     (let n = (of_char c :: nat)
      in (9 \<le> n \<and> n \<le> 13) \<or> (28 \<le> n \<and> n \<le> 32) \<or> n = 133 \<or> n = 160)"

text \<open>\<^verbatim>\<open>s.strip()\<close> removes the white space at both ends.\<close>

definition strip :: "string \<Rightarrow> string" where
  "strip s = rev (dropWhile isspace (rev (dropWhile isspace s)))"

text \<open>
  \<^verbatim>\<open>s.lower()\<close>: the letters A to Z, and the Latin-1 capitals 0xC0 to 0xDE but the
  multiplication sign 0xD7, move up by 32.
\<close>

definition lower_char :: "char \<Rightarrow> char" where
  "lower_char c =
     (let n = (of_char c :: nat)
      in if (65 \<le> n \<and> n \<le> 90) \<or> (192 \<le> n \<and> n \<le> 222 \<and> (n < 215 \<or> 215 < n))
         then char_of (n + 32) else c)"

definition lower :: "string \<Rightarrow> string" where
  "lower s = map lower_char s"

text \<open>
  \<^verbatim>\<open>s.splitlines()\<close>: a line ends at LF, VT, FF, CR, FS, GS, RS or NEL; CR LF is one
  line end; the line ends are not kept, and no empty last line is added. The first
  argument says that the character before was a CR, the second is the line read so far.
\<close>

definition is_linebreak :: "char \<Rightarrow> bool" where
  "is_linebreak c =
     (let n = (of_char c :: nat) in (10 \<le> n \<and> n \<le> 13) \<or> (28 \<le> n \<and> n \<le> 30) \<or> n = 133)"

fun splitlines_from :: "bool \<Rightarrow> string \<Rightarrow> string \<Rightarrow> string list" where
  "splitlines_from after_cr cur [] = (if cur = [] then [] else [cur])"
| "splitlines_from after_cr cur (c # cs) =
     (if after_cr \<and> c = CHR 0x0A then splitlines_from False cur cs
      else if is_linebreak c then cur # splitlines_from (c = CHR 0x0D) [] cs
      else splitlines_from False (cur @ [c]) cs)"

definition splitlines :: "string \<Rightarrow> string list" where
  "splitlines s = splitlines_from False [] s"

text \<open>\<^verbatim>\<open>s.split(sep)\<close> for a separator of one character: never an empty list.\<close>

fun split_on :: "char \<Rightarrow> string \<Rightarrow> string list" where
  "split_on sep [] = [[]]"
| "split_on sep (c # cs) =
     (if c = sep then [] # split_on sep cs
      else case split_on sep cs of
             w # ws \<Rightarrow> (c # w) # ws
           | [] \<Rightarrow> [[c]])"

text \<open>
  \<^verbatim>\<open>key, value = token.split("=", 1)\<close>, used only where the token has a
  \<^verbatim>\<open>=\<close>, so that the split gives exactly two parts: the text before the first
  \<^verbatim>\<open>=\<close> and the text after it.
\<close>

definition split_first :: "char \<Rightarrow> string \<Rightarrow> string \<times> string" where
  "split_first sep s = (takeWhile (\<lambda>c. c \<noteq> sep) s, tl (dropWhile (\<lambda>c. c \<noteq> sep) s))"

text \<open>
  \<^verbatim>\<open>re.fullmatch(r"-?\d+", value)\<close> and \<^verbatim>\<open>int(value)\<close> on such a value. Among the
  code points below 256 the class \<^verbatim>\<open>\d\<close> is 0 to 9.
\<close>

definition is_digit :: "char \<Rightarrow> bool" where
  "is_digit c = (let n = (of_char c :: nat) in 48 \<le> n \<and> n \<le> 57)"

definition digits_value :: "string \<Rightarrow> int" where
  "digits_value ds = foldl (\<lambda>a c. 10 * a + (int (of_char c) - 48)) 0 ds"

definition is_int_literal :: "string \<Rightarrow> bool" where
  "is_int_literal v =
     (case v of
        [] \<Rightarrow> False
      | c # cs \<Rightarrow> if c = CHR ''-'' then (cs \<noteq> [] \<and> list_all is_digit cs)
                  else list_all is_digit v)"

definition int_of_literal :: "string \<Rightarrow> int" where
  "int_of_literal v =
     (case v of
        [] \<Rightarrow> 0
      | c # cs \<Rightarrow> if c = CHR ''-'' then - digits_value cs else digits_value v)"

section \<open>Job Option Parser: \<^verbatim>\<open>_parse_job_options\<close>\<close>

text \<open>
  \<^verbatim>\<open>ATTRIBUTE_TAG_MAP\<close> of pyipp is a module-level dict from attribute names to wire
  tags; the parser writes to it, so it is passed in and returned. Of pyipp's tags only
  the two the plugin names are told apart.
\<close>

datatype IppTag = KEYWORD | BOOLEAN | OtherTag nat

type_synonym registry = "(string \<times> IppTag) list"

text \<open>\<^verbatim>\<open>d.setdefault(key, value)\<close> stores the value only where the key is absent.\<close>

definition setdefault :: "'k \<Rightarrow> 'v \<Rightarrow> ('k \<times> 'v) list \<Rightarrow> ('k \<times> 'v) list" where
  "setdefault k v d = (case map_of d k of None \<Rightarrow> d @ [(k, v)] | Some _ \<Rightarrow> d)"

text \<open>The four module-level calls that run when the plugin is imported.\<close>

definition seed_registry :: "registry \<Rightarrow> registry" where
  "seed_registry reg =
     setdefault ''FeedDist'' KEYWORD
       (setdefault ''FeedWhere'' KEYWORD
         (setdefault ''BlankSpace'' BOOLEAN
           (setdefault ''TrimMode'' KEYWORD reg)))"

text \<open>
  The first loop: \<^verbatim>\<open>raw_lines.extend([part.strip() for part in line.split(",")])\<close> for
  every line.
\<close>

definition raw_lines :: "string \<Rightarrow> string list" where
  "raw_lines text = concat (map (\<lambda>line. map strip (split_on CHR '','' line)) (splitlines text))"

text \<open>The typing of a value, the \<^verbatim>\<open>if\<close>/\<^verbatim>\<open>elif\<close> chain of the second loop.\<close>

definition parsed_value :: "string \<Rightarrow> pyval" where
  "parsed_value v =
     (let v_lower = lower v
      in if v_lower = ''true'' then VBool True
         else if v_lower = ''false'' then VBool False
         else if is_int_literal v then VInt (int_of_literal v)
         else VStr v)"

text \<open>
  The body of the second loop, on the pair of the result dict and the tag map: each
  \<^verbatim>\<open>continue\<close> leaves both as they are.
\<close>

definition parse_token :: "string \<Rightarrow> pydict \<times> registry \<Rightarrow> pydict \<times> registry" where
  "parse_token token st =
     (if token = [] \<or> CHR ''='' \<notin> set token then st
      else
        (let (key0, value0) = split_first CHR ''='' token;
             key = strip key0;
             v = strip value0
         in if key = [] then st
            else if lower v = ''none'' then st
            else (AList.update key (parsed_value v) (fst st),
                  setdefault key KEYWORD (snd st))))"

definition parse_job_options :: "registry \<Rightarrow> string \<Rightarrow> pydict \<times> registry" where
  "parse_job_options reg text =
     (if text = [] then ([], reg)
      else fold parse_token (raw_lines text) ([], reg))"

subsection \<open>The parser as the specification words it\<close>





section \<open>Media Size Resolver: \<^verbatim>\<open>_resolve_media\<close>\<close>

text \<open>
  \<^verbatim>\<open>_pdf_media_auto\<close> reads the page box with pypdf, or with a regular expression,
  and computes the size in binary64 arithmetic. Its result for a payload is an argument
  of the functions that call it. The media value may be \<^verbatim>\<open>None\<close>:
  \<^verbatim>\<open>(media_value or "")\<close> makes it the empty string.
\<close>

definition resolve_media :: "(bytes \<Rightarrow> string) \<Rightarrow> string option \<Rightarrow> bytes \<Rightarrow> string" where
  "resolve_media pdf_media_auto media_value payload =
     (let media = strip (case media_value of None \<Rightarrow> [] | Some m \<Rightarrow> m)
      in if media = [] then []
         else if lower media = ''auto'' then pdf_media_auto payload
         else media)"

section \<open>Payload Normalizer: \<^verbatim>\<open>_as_bytes\<close>\<close>

text \<open>
  The label is any Python object. What \<^verbatim>\<open>_as_bytes\<close> and the \<^verbatim>\<open>or\<close> chain of
  \<^verbatim>\<open>print_label\<close> can tell apart: \<^verbatim>\<open>None\<close>, \<^verbatim>\<open>bytes\<close>, \<^verbatim>\<open>bytearray\<close>,
  \<^verbatim>\<open>str\<close>, an object with a \<^verbatim>\<open>read\<close> method (given by what the call returns), and
  any other object (given by its truth value and the text of its type).
\<close>

datatype read_result = ReadText string | ReadBinary bytes

datatype pyobj =
    PNone
  | PBytes bytes
  | PByteArray bytes
  | PStr string
  | PStream read_result
  | POther bool string

text \<open>
  The file system, as \<^verbatim>\<open>os.path.exists\<close> and \<^verbatim>\<open>open(label, "rb")\<close> see it: a path
  does not exist (\<open>None\<close>), or it is a file that reads to its contents, or it exists but
  opening it for reading raises an OSError with the given message, as a directory does.
\<close>

datatype fs_entry = Readable bytes | Unreadable string

type_synonym filesystem = "string \<Rightarrow> fs_entry option"

text \<open>\<^verbatim>\<open>s.encode("utf-8")\<close>: a code point from 128 to 255 becomes two bytes.\<close>

definition encode_utf8 :: "string \<Rightarrow> bytes" where
  "encode_utf8 s =
     concat (map (\<lambda>c. let n = (of_char c :: nat)
                       in if n < 128 then [c]
                          else [char_of (192 + n div 64), char_of (128 + n mod 64)]) s)"

definition as_bytes :: "filesystem \<Rightarrow> pyobj \<Rightarrow> exn + bytes" where
  "as_bytes fs label =
     (case label of
        PNone \<Rightarrow> Inl (Exc ValueError ''No label payload provided'')
      | PBytes b \<Rightarrow> Inr b
      | PByteArray b \<Rightarrow> Inr b
      | PStr s \<Rightarrow>
          (case fs s of
             Some (Readable contents) \<Rightarrow> Inr contents
           | Some (Unreadable msg) \<Rightarrow> Inl (Exc OSError msg)
           | None \<Rightarrow> Inr (encode_utf8 s))
      | PStream r \<Rightarrow> (case r of ReadText t \<Rightarrow> Inr (encode_utf8 t) | ReadBinary b \<Rightarrow> Inr b)
      | POther truth ty \<Rightarrow> Inl (Exc TypeError (''Unsupported label payload type: '' @ ty)))"

section \<open>Job Request Assembler and submission: \<^verbatim>\<open>_print_via_ipp\<close>\<close>

definition printer_uri :: "string \<Rightarrow> int \<Rightarrow> string \<Rightarrow> string" where
  "printer_uri host port queue = ''ipp://'' @ host @ '':'' @ str_int port @ ''/printers/'' @ queue"

record ipp_message =
  operation_attributes :: pydict
  job_attributes :: pydict
  message_data :: bytes

text \<open>
  What the plugin does not implement: \<^verbatim>\<open>float\<close> and \<^verbatim>\<open>int\<close> on the text of a
  setting, the file system, the page size of a PDF, and pyipp's \<^verbatim>\<open>execute\<close> on a
  printer URI, which returns \<open>None\<close> or the exception it raised.
\<close>

record world =
  float_of_str :: "string \<Rightarrow> exn + pyfloat"
  int_of_str :: "string \<Rightarrow> exn + int"
  files :: filesystem
  pdf_media_auto :: "bytes \<Rightarrow> string"
  ipp_execute :: "string \<Rightarrow> ipp_message \<Rightarrow> exn option"

text \<open>
  The dict \<^verbatim>\<open>job_attrs\<close> of \<^verbatim>\<open>_print_via_ipp\<close>, with the tag map the parser leaves.
  \<^verbatim>\<open>_feed_options\<close> runs after the parser and can raise.
\<close>

definition job_attrs ::
  "(bytes \<Rightarrow> string) \<Rightarrow> registry \<Rightarrow> bytes \<Rightarrow> string option \<Rightarrow> int \<Rightarrow> string \<Rightarrow> pyfloat \<Rightarrow> string
     \<Rightarrow> (exn + pydict) \<times> registry" where
  "job_attrs auto reg payload media copies title feed_after_mm job_options_text =
     (let media_resolved = resolve_media auto media payload;
          attrs0 = [(''job-name'', VStr title), (''copies'', VInt copies)];
          parsed = parse_job_options reg job_options_text;
          attrs1 = dict_update attrs0 (fst parsed)
      in case feed_options feed_after_mm of
           Inl e \<Rightarrow> (Inl e, snd parsed)
         | Inr feed \<Rightarrow>
             (let attrs2 = dict_update attrs1 feed
              in (Inr (if media_resolved = [] then attrs2
                       else AList.update ''media'' (VStr media_resolved) attrs2),
                  snd parsed)))"

definition print_via_ipp ::
  "world \<Rightarrow> registry \<Rightarrow> string \<Rightarrow> int \<Rightarrow> string \<Rightarrow> bytes \<Rightarrow> string option \<Rightarrow> int \<Rightarrow> string
     \<Rightarrow> pyfloat \<Rightarrow> string \<Rightarrow> (exn + unit) \<times> registry" where
  "print_via_ipp w reg host port queue payload media copies title feed_after_mm job_options_text =
     (let uri = printer_uri host port queue
      in case job_attrs (pdf_media_auto w) reg payload media copies title feed_after_mm
                job_options_text of
           (Inl e, reg') \<Rightarrow> (Inl e, reg')
         | (Inr attrs, reg') \<Rightarrow>
             (let message = \<lparr>operation_attributes = [(''document-format'', VStr ''application/pdf'')],
                             job_attributes = attrs, message_data = payload\<rparr>
              in case ipp_execute w uri message of
                   None \<Rightarrow> (Inr (), reg')
                 | Some e \<Rightarrow> (Inl e, reg')))"

section \<open>The entry point: \<^verbatim>\<open>print_label\<close>\<close>

record printing_options =
  opt_media :: "string option"
  opt_copies :: "int option"
  opt_title :: "string option"
  opt_feed_after_mm :: "pyfloat option"
  opt_job_options :: "string option"

record kwargs =
  kw_pdf_data :: pyobj
  kw_label :: pyobj
  kw_data :: pyobj
  kw_payload :: pyobj
  kw_printing_options :: "printing_options option"

record settings =
  CUPS_HOST :: "string option"
  CUPS_QUEUE :: "string option"
  CUPS_PORT :: "string option"
  DEFAULT_MEDIA :: "string option"
  DEFAULT_FEED_AFTER_MM :: "string option"
  JOB_OPTIONS :: "string option"

text \<open>
  Python's truth value, and \<^verbatim>\<open>a or b\<close>, which is \<open>a\<close> when \<open>a\<close> is true and \<open>b\<close>
  otherwise, whatever \<open>b\<close> is. An absent keyword reads as \<^verbatim>\<open>None\<close>.
\<close>

definition truthy :: "pyobj \<Rightarrow> bool" where
  "truthy x =
     (case x of
        PNone \<Rightarrow> False
      | PBytes b \<Rightarrow> \<not> (b = [])
      | PByteArray b \<Rightarrow> \<not> (b = [])
      | PStr s \<Rightarrow> \<not> (s = [])
      | PStream r \<Rightarrow> True
      | POther truth ty \<Rightarrow> truth)"

definition py_or :: "pyobj \<Rightarrow> pyobj \<Rightarrow> pyobj" where
  "py_or a b = (if truthy a then a else b)"

definition or_str :: "string option \<Rightarrow> string option \<Rightarrow> string option" where
  "or_str a b = (case a of None \<Rightarrow> b | Some s \<Rightarrow> if s = [] then b else a)"

definition or_lit :: "string option \<Rightarrow> string \<Rightarrow> string" where
  "or_lit a lit = (case a of None \<Rightarrow> lit | Some s \<Rightarrow> if s = [] then lit else s)"

definition selected_label :: "kwargs \<Rightarrow> pyobj" where
  "selected_label kw = py_or (kw_pdf_data kw) (py_or (kw_label kw) (py_or (kw_data kw) (kw_payload kw)))"

definition selected_options :: "kwargs \<Rightarrow> printing_options" where
  "selected_options kw =
     (case kw_printing_options kw of
        None \<Rightarrow> \<lparr>opt_media = None, opt_copies = None, opt_title = None,
                  opt_feed_after_mm = None, opt_job_options = None\<rparr>
      | Some opts \<Rightarrow> opts)"

text \<open>The locals \<^verbatim>\<open>media\<close>, \<^verbatim>\<open>feed_after_mm\<close> and \<^verbatim>\<open>job_options_text\<close>.\<close>

definition effective_media :: "settings \<Rightarrow> printing_options \<Rightarrow> string option" where
  "effective_media st opts = or_str (opt_media opts) (DEFAULT_MEDIA st)"

definition effective_feed_after_mm :: "world \<Rightarrow> settings \<Rightarrow> printing_options \<Rightarrow> exn + pyfloat" where
  "effective_feed_after_mm w st opts =
     (case opt_feed_after_mm opts of
        Some x \<Rightarrow> Inr x
      | None \<Rightarrow>
          (case DEFAULT_FEED_AFTER_MM st of
             None \<Rightarrow> Inr (Finite 0)
           | Some s \<Rightarrow> if s = [] then Inr (Finite 0) else float_of_str w s))"

definition effective_job_options :: "settings \<Rightarrow> printing_options \<Rightarrow> string" where
  "effective_job_options st opts = or_lit (or_str (opt_job_options opts) (JOB_OPTIONS st)) []"

definition print_label :: "world \<Rightarrow> settings \<Rightarrow> registry \<Rightarrow> kwargs \<Rightarrow> (exn + unit) \<times> registry" where
  "print_label w st reg kw =
     (let label = selected_label kw;
          options = selected_options kw;
          media = effective_media st options;
          copies = (case opt_copies options of None \<Rightarrow> 1 | Some c \<Rightarrow> c);
          title = or_lit (opt_title options) ''inventree-label''
      in case effective_feed_after_mm w st options of
           Inl e \<Rightarrow> (Inl e, reg)
         | Inr feed_after_mm \<Rightarrow>
             (let job_options_text = effective_job_options st options;
                  cups_host = or_lit (CUPS_HOST st) ''portterm'';
                  cups_queue = or_lit (CUPS_QUEUE st) ''devterm_printer''
              in case int_of_str w (or_lit (CUPS_PORT st) ''631'') of
                   Inl e \<Rightarrow> (Inl e, reg)
                 | Inr cups_port \<Rightarrow>
                     (case as_bytes (files w) label of
                        Inl e \<Rightarrow> (Inl e, reg)
                      | Inr payload \<Rightarrow>
                          (case print_via_ipp w reg cups_host cups_port cups_queue payload media
                                  copies title feed_after_mm job_options_text of
                             (Inl (Exc ty msg), reg') \<Rightarrow>
                               (Inl (Exc RuntimeError (''IPP print failed: '' @ msg)), reg')
                           | (Inr u, reg') \<Rightarrow> (Inr (), reg')))))"

subsection \<open>Settings as shipped, and a sample of the surroundings\<close>

text \<open>
  The defaults of the \<^verbatim>\<open>SETTINGS\<close> dict. The sample surroundings have no files, know
  the two numbers the defaults hold, read no page size, and submit through the given
  function.
\<close>

definition default_settings :: settings where
  "default_settings =
     \<lparr>CUPS_HOST = Some ''portterm'', CUPS_QUEUE = Some ''devterm_printer'',
      CUPS_PORT = Some ''631'', DEFAULT_MEDIA = Some ''auto'',
      DEFAULT_FEED_AFTER_MM = Some ''0'',
      JOB_OPTIONS = Some (''print-scaling=none'' @ [CHR 0x0A] @ ''TrimMode=Strong'' @ [CHR 0x0A]
                          @ ''BlankSpace=False'' @ [CHR 0x0A] @ ''orientation-requested=none'')\<rparr>"

definition sample_world :: "(string \<Rightarrow> ipp_message \<Rightarrow> exn option) \<Rightarrow> world" where
  "sample_world execute =
     \<lparr>float_of_str = (\<lambda>s. if s = ''0'' then Inr (Finite 0)
                            else Inl (Exc ValueError ''could not convert string to float'')),
      int_of_str = (\<lambda>s. if s = ''631'' then Inr 631
                          else Inl (Exc ValueError ''invalid literal for int() with base 10'')),
      files = (\<lambda>path. None),
      pdf_media_auto = (\<lambda>payload. []),
      ipp_execute = execute\<rparr>"

definition no_options :: printing_options where
  "no_options = \<lparr>opt_media = None, opt_copies = None, opt_title = None,
                  opt_feed_after_mm = None, opt_job_options = None\<rparr>"

definition only_payload :: "pyobj \<Rightarrow> kwargs" where
  "only_payload x = \<lparr>kw_pdf_data = PNone, kw_label = PNone, kw_data = PNone, kw_payload = x,
                      kw_printing_options = None\<rparr>"

section \<open>Properties\<close>

lemma spec_steps_range: "1 \<le> spec_steps mm \<and> spec_steps mm \<le> 15"
  by (simp add: spec_steps_def Let_def)

lemma feed_steps_Finite: "feed_steps (Finite mm) = Inr (spec_steps mm)"
  by (simp add: feed_steps_def py_round_def float_div3_def spec_steps_def Let_def max_def min_def)

subsection \<open>Feed Policy Encoder\<close>

text \<open>
  Claim C1, as it stands, fails at the float infinity: it is greater than zero, and
  \<^verbatim>\<open>round\<close> raises OverflowError on it before the clamp is reached.
\<close>

theorem feed_options_infinity_counterexample:
  "float_gt_zero PosInf \<and>
   feed_options PosInf = Inl (Exc OverflowError ''cannot convert float infinity to integer'')"
  by (simp add: float_gt_zero_def feed_options_def float_le_zero_def feed_steps_def py_round_def
      float_div3_def)

text \<open>
  Claim C1, amended to finite inputs. For every finite \<open>mm\<close>: at \<open>mm \<le> 0\<close> the result is
  exactly \<^verbatim>\<open>{FeedWhere: "None"}\<close>; at \<open>mm > 0\<close> it is \<^verbatim>\<open>FeedWhere: "AfterJob"\<close> and
  \<^verbatim>\<open>FeedDist: "<steps-1>feed<3*steps>mm"\<close>, where \<open>steps\<close> is \<open>round(mm / 3)\<close>
  clamped to 1..15. In particular the results at 0, 7 and 100 are those of the
  specification.
\<close>

theorem feed_options_finite:
  "feed_options (Finite mm) =
     Inr (if mm \<le> 0 then [(''FeedWhere'', VStr ''None'')]
          else [(''FeedWhere'', VStr ''AfterJob''),
                (''FeedDist'',
                 VStr (str_int (spec_steps mm - 1) @ ''feed'' @ str_int (3 * spec_steps mm) @ ''mm''))])
   \<and> 1 \<le> spec_steps mm \<and> spec_steps mm \<le> 15
   \<and> feed_options (Finite 0) = Inr [(''FeedWhere'', VStr ''None'')]
   \<and> feed_options (Finite 7) =
       Inr [(''FeedWhere'', VStr ''AfterJob''), (''FeedDist'', VStr ''1feed6mm'')]
   \<and> feed_options (Finite 100) =
       Inr [(''FeedWhere'', VStr ''AfterJob''), (''FeedDist'', VStr ''14feed45mm'')]"
proof -
  have general: "feed_options (Finite mm) =
     Inr (if mm \<le> 0 then [(''FeedWhere'', VStr ''None'')]
          else [(''FeedWhere'', VStr ''AfterJob''),
                (''FeedDist'',
                 VStr (str_int (spec_steps mm - 1) @ ''feed'' @ str_int (3 * spec_steps mm) @ ''mm''))])"
    by (simp add: feed_options_def float_le_zero_def feed_steps_Finite Let_def mult.commute)
  have at0: "feed_options (Finite 0) = Inr [(''FeedWhere'', VStr ''None'')]"
    by (simp add: feed_options_def float_le_zero_def)
  have at7: "feed_options (Finite 7) =
       Inr [(''FeedWhere'', VStr ''AfterJob''), (''FeedDist'', VStr ''1feed6mm'')]"
    by code_simp
  have at100: "feed_options (Finite 100) =
       Inr [(''FeedWhere'', VStr ''AfterJob''), (''FeedDist'', VStr ''14feed45mm'')]"
    by code_simp
  from general spec_steps_range [of mm] at0 at7 at100 show ?thesis
    by blast
qed

subsection \<open>Job Option Parser\<close>











subsection \<open>Media Size Resolver\<close>

lemma rev_split: "xs = rev (dropWhile P (rev xs)) @ rev (takeWhile P (rev xs))"
  by (metis rev_append rev_rev_ident takeWhile_dropWhile_id)

lemma strip_decomp:
  "\<exists>a b. s = a @ strip s @ b \<and> list_all isspace a \<and> list_all isspace b"
proof -
  let ?t = "dropWhile isspace s"
  have s: "s = takeWhile isspace s @ ?t" by simp
  have "?t = strip s @ rev (takeWhile isspace (rev ?t))"
    unfolding strip_def by (rule rev_split)
  then have "s = takeWhile isspace s @ strip s @ rev (takeWhile isspace (rev ?t))"
    using s by simp
  moreover have "list_all isspace (takeWhile isspace s)"
    by (simp add: list_all_iff) (meson set_takeWhileD)
  moreover have "list_all isspace (rev (takeWhile isspace (rev ?t)))"
    by (simp add: list_all_iff) (meson set_takeWhileD)
  ultimately show ?thesis by blast
qed

lemma takeWhile_dropWhile_Nil: "takeWhile P (dropWhile P xs) = []"
  by (induction xs) auto

lemma hd_rev_dropWhile_rev:
  "dropWhile P (rev xs) \<noteq> [] \<Longrightarrow> xs \<noteq> [] \<and> hd (rev (dropWhile P (rev xs))) = hd xs"
  by (metis dropWhile_eq_Nil_conv dropWhile_eq_self_iff dropWhile_last
    hd_rev last_rev rev.simps(1))

lemma strip_ends:
  "takeWhile isspace (strip s) = [] \<and> takeWhile isspace (rev (strip s)) = []"
proof -
  let ?t = "dropWhile isspace s"
  let ?u = "dropWhile isspace (rev ?t)"
  have trailing: "takeWhile isspace ?u = []"
    by (rule takeWhile_dropWhile_Nil)
  have leading: "takeWhile isspace (rev ?u) = []"
  proof (cases "?u = []")
    case True
    show ?thesis unfolding True by simp
  next
    case False
    then have ne: "?t \<noteq> []" and h: "hd (rev ?u) = hd ?t"
      using hd_rev_dropWhile_rev [of isspace ?t] by simp_all
    from ne have "\<not> isspace (hd ?t)" by (metis hd_dropWhile)
    with h False show ?thesis
      by (cases "rev ?u") simp_all
  qed
  show ?thesis using trailing leading by (simp add: strip_def)
qed

text \<open>
  Claim C3. For every policy text and payload the resolver works on the trimmed text,
  which is the text without the white space at its two ends: it returns the empty string
  when the trimmed text is empty, the size read from the PDF when the trimmed text is
  \<^verbatim>\<open>auto\<close> in any case, and the trimmed text itself otherwise. So the empty policy
  gives the empty string and \<^verbatim>\<open>Custom.48x30mm\<close> is returned as it is, whatever the
  payload.
\<close>

theorem resolve_media_policy:
  "resolve_media auto (Some text) payload =
     (if strip text = [] then []
      else if lower (strip text) = ''auto'' then auto payload
      else strip text)
   \<and> (\<exists>a b. text = a @ strip text @ b \<and> list_all isspace a \<and> list_all isspace b)
   \<and> takeWhile isspace (strip text) = []
   \<and> takeWhile isspace (rev (strip text)) = []
   \<and> resolve_media auto None payload = []
   \<and> resolve_media auto (Some []) payload = []
   \<and> resolve_media auto (Some ''Custom.48x30mm'') payload = ''Custom.48x30mm''
   \<and> resolve_media auto (Some '' AUTO  '') payload = auto payload"
proof -
  have branches: "resolve_media auto (Some text) payload =
     (if strip text = [] then []
      else if lower (strip text) = ''auto'' then auto payload
      else strip text)"
    by (simp add: resolve_media_def Let_def)
  have absent: "resolve_media auto None payload = []"
    by (simp add: resolve_media_def strip_def)
  have blank: "resolve_media auto (Some []) payload = []"
    by (simp add: resolve_media_def strip_def)
  have explicit: "resolve_media auto (Some ''Custom.48x30mm'') payload = ''Custom.48x30mm''"
    by code_simp
  have upper: "resolve_media auto (Some '' AUTO  '') payload = auto payload"
    by code_simp
  from branches strip_decomp [of "text"] strip_ends [of "text"] absent blank explicit upper
  show ?thesis
    by blast
qed

subsection \<open>Payload Normalizer\<close>



subsection \<open>Job Request Assembler\<close>








subsection \<open>The entry point\<close>

lemma print_label_after_conversions:
  assumes "effective_feed_after_mm w st (selected_options kw) = Inr feed"
    and "int_of_str w (or_lit (CUPS_PORT st) ''631'') = Inr port"
  shows "print_label w st reg kw =
     (case as_bytes (files w) (selected_label kw) of
        Inl e \<Rightarrow> (Inl e, reg)
      | Inr payload \<Rightarrow>
          (case print_via_ipp w reg (or_lit (CUPS_HOST st) ''portterm'') port
                  (or_lit (CUPS_QUEUE st) ''devterm_printer'') payload
                  (effective_media st (selected_options kw))
                  (case opt_copies (selected_options kw) of None \<Rightarrow> 1 | Some c \<Rightarrow> c)
                  (or_lit (opt_title (selected_options kw)) ''inventree-label'')
                  feed (effective_job_options st (selected_options kw)) of
             (Inl (Exc ty msg), reg') \<Rightarrow> (Inl (Exc RuntimeError (''IPP print failed: '' @ msg)), reg')
           | (Inr u, reg') \<Rightarrow> (Inr (), reg')))"
  by (simp add: print_label_def assms Let_def)

lemma selected_label_last:
  "\<not> truthy (kw_pdf_data kw) \<Longrightarrow> \<not> truthy (kw_label kw) \<Longrightarrow> \<not> truthy (kw_data kw)
     \<Longrightarrow> selected_label kw = kw_payload kw"
  by (simp add: selected_label_def py_or_def)

text \<open>
  Claim C8, as it stands, fails for a blank value: a request that supplies the empty
  string as \<^verbatim>\<open>media\<close> or as \<^verbatim>\<open>job_options\<close> gets the configured default, since
  \<^verbatim>\<open>or\<close> takes the empty string for false.
\<close>

theorem effective_options_blank_counterexample:
  "opt_media (no_options\<lparr>opt_media := Some [], opt_job_options := Some []\<rparr>) = Some []
   \<and> effective_media default_settings
         (no_options\<lparr>opt_media := Some [], opt_job_options := Some []\<rparr>) = Some ''auto''
   \<and> opt_job_options (no_options\<lparr>opt_media := Some [], opt_job_options := Some []\<rparr>) = Some []
   \<and> effective_job_options default_settings
         (no_options\<lparr>opt_media := Some [], opt_job_options := Some []\<rparr>) =
       ''print-scaling=none'' @ [CHR 0x0A] @ ''TrimMode=Strong'' @ [CHR 0x0A]
         @ ''BlankSpace=False'' @ [CHR 0x0A] @ ''orientation-requested=none''"
  by (simp add: no_options_def default_settings_def effective_media_def effective_job_options_def
      or_str_def or_lit_def)

text \<open>
  Claim C8, amended. The effective \<^verbatim>\<open>media\<close> and \<^verbatim>\<open>job_options\<close> are the request's
  value when the request supplies a non-empty one, and the configured default otherwise
  (for \<^verbatim>\<open>job_options\<close> the empty string when there is no default). The effective
  \<^verbatim>\<open>feed_after_mm\<close> is the request's value whenever the request supplies one, zero
  included, and otherwise the configured default converted to a float, a blank default
  counting as zero.
\<close>

theorem effective_options:
  "(opt_media opts = Some m \<and> m \<noteq> [] \<longrightarrow> effective_media st opts = Some m)
   \<and> (opt_media opts = None \<or> opt_media opts = Some [] \<longrightarrow>
        effective_media st opts = DEFAULT_MEDIA st)
   \<and> (opt_job_options opts = Some j \<and> j \<noteq> [] \<longrightarrow> effective_job_options st opts = j)
   \<and> (opt_job_options opts = None \<or> opt_job_options opts = Some [] \<longrightarrow>
        effective_job_options st opts = (case JOB_OPTIONS st of None \<Rightarrow> [] | Some d \<Rightarrow> d))
   \<and> (opt_feed_after_mm opts = Some x \<longrightarrow> effective_feed_after_mm w st opts = Inr x)
   \<and> (opt_feed_after_mm opts = None \<longrightarrow>
        effective_feed_after_mm w st opts =
          (case DEFAULT_FEED_AFTER_MM st of
             None \<Rightarrow> Inr (Finite 0)
           | Some s \<Rightarrow> if s = [] then Inr (Finite 0) else float_of_str w s))"
  by (auto simp: effective_media_def effective_job_options_def effective_feed_after_mm_def
      or_str_def or_lit_def split: option.splits)

text \<open>
  The defaults as shipped, with a request that names a media, one that names job options,
  one that gives a feed, and requests that leave them out or blank.
\<close>

theorem effective_options_witness:
  "effective_media default_settings (no_options\<lparr>opt_media := Some ''Custom.48x30mm''\<rparr>) =
     Some ''Custom.48x30mm''
   \<and> effective_media default_settings no_options = Some ''auto''
   \<and> effective_media default_settings (no_options\<lparr>opt_media := Some []\<rparr>) = Some ''auto''
   \<and> effective_job_options default_settings (no_options\<lparr>opt_job_options := Some ''copies=2''\<rparr>) =
       ''copies=2''
   \<and> effective_job_options (default_settings\<lparr>JOB_OPTIONS := Some ''TrimMode=Strong''\<rparr>) no_options =
       ''TrimMode=Strong''
   \<and> effective_job_options (default_settings\<lparr>JOB_OPTIONS := Some ''TrimMode=Strong''\<rparr>)
         (no_options\<lparr>opt_job_options := Some []\<rparr>) = ''TrimMode=Strong''
   \<and> effective_feed_after_mm (sample_world (\<lambda>uri msg. None)) default_settings
         (no_options\<lparr>opt_feed_after_mm := Some (Finite 0)\<rparr>) = Inr (Finite 0)
   \<and> effective_feed_after_mm (sample_world (\<lambda>uri msg. None))
         (default_settings\<lparr>DEFAULT_FEED_AFTER_MM := Some ''0''\<rparr>) no_options = Inr (Finite 0)"
proof -
  let ?w = "sample_world (\<lambda>uri msg. None)"
  let ?st = "default_settings\<lparr>JOB_OPTIONS := Some ''TrimMode=Strong''\<rparr>"
  note a = effective_options [of "no_options\<lparr>opt_media := Some ''Custom.48x30mm''\<rparr>"
      "''Custom.48x30mm''" default_settings "[]" "Finite 0" ?w]
  note b = effective_options [of no_options "[]" default_settings "[]" "Finite 0" ?w]
  note c = effective_options [of "no_options\<lparr>opt_media := Some []\<rparr>" "[]" default_settings
      "[]" "Finite 0" ?w]
  note d = effective_options [of "no_options\<lparr>opt_job_options := Some ''copies=2''\<rparr>" "[]"
      default_settings "''copies=2''" "Finite 0" ?w]
  note e = effective_options [of no_options "[]" ?st "[]" "Finite 0" ?w]
  note f = effective_options [of "no_options\<lparr>opt_job_options := Some []\<rparr>" "[]" ?st "[]"
      "Finite 0" ?w]
  note g = effective_options [of "no_options\<lparr>opt_feed_after_mm := Some (Finite 0)\<rparr>" "[]"
      default_settings "[]" "Finite 0" ?w]
  note h = effective_options [of no_options "[]"
      "default_settings\<lparr>DEFAULT_FEED_AFTER_MM := Some ''0''\<rparr>" "[]" "Finite 0" ?w]
  from a b c d e f g h show ?thesis
    by (simp add: no_options_def default_settings_def sample_world_def)
qed

text \<open>
  Claim C9. Once the options are converted, the payload is normalised and the attributes
  are assembled, the outcome of \<^verbatim>\<open>print_label\<close> is decided by the submission alone:
  when pyipp raises, whatever the type of the exception, \<^verbatim>\<open>print_label\<close> raises a
  RuntimeError whose message is \<^verbatim>\<open>IPP print failed: \<close> followed by the message of that
  exception; when pyipp returns, \<^verbatim>\<open>print_label\<close> returns nothing.
\<close>

theorem print_label_submission_outcome:
  assumes "effective_feed_after_mm w st (selected_options kw) = Inr feed"
    and "int_of_str w (or_lit (CUPS_PORT st) ''631'') = Inr port"
    and "as_bytes (files w) (selected_label kw) = Inr payload"
    and "job_attrs (pdf_media_auto w) reg payload (effective_media st (selected_options kw))
           (case opt_copies (selected_options kw) of None \<Rightarrow> 1 | Some c \<Rightarrow> c)
           (or_lit (opt_title (selected_options kw)) ''inventree-label'')
           feed (effective_job_options st (selected_options kw)) = (Inr attrs, reg')"
  shows "fst (print_label w st reg kw) =
     (case ipp_execute w
             (printer_uri (or_lit (CUPS_HOST st) ''portterm'') port
                (or_lit (CUPS_QUEUE st) ''devterm_printer''))
             \<lparr>operation_attributes = [(''document-format'', VStr ''application/pdf'')],
              job_attributes = attrs, message_data = payload\<rparr> of
        None \<Rightarrow> Inr ()
      | Some (Exc ty msg) \<Rightarrow> Inl (Exc RuntimeError (''IPP print failed: '' @ msg)))"
  by (simp add: print_label_after_conversions [OF assms(1,2)] assms(3,4) print_via_ipp_def Let_def
      split: option.splits exn.splits)

text \<open>
  A PDF payload with the defaults as shipped: a printer that refuses the connection,
  and one that accepts the job.
\<close>

theorem print_label_submission_outcome_witness:
  "effective_feed_after_mm (sample_world (\<lambda>uri msg. Some (Exc IPPError ''connection refused'')))
       default_settings (selected_options (only_payload (PBytes ''%PDF-1.4''))) = Inr (Finite 0)
   \<and> int_of_str (sample_world (\<lambda>uri msg. Some (Exc IPPError ''connection refused'')))
       (or_lit (CUPS_PORT default_settings) ''631'') = Inr 631
   \<and> as_bytes (files (sample_world (\<lambda>uri msg. Some (Exc IPPError ''connection refused''))))
       (selected_label (only_payload (PBytes ''%PDF-1.4''))) = Inr ''%PDF-1.4''
   \<and> fst (print_label (sample_world (\<lambda>uri msg. Some (Exc IPPError ''connection refused'')))
            default_settings (seed_registry []) (only_payload (PBytes ''%PDF-1.4''))) =
       Inl (Exc RuntimeError ''IPP print failed: connection refused'')
   \<and> fst (print_label (sample_world (\<lambda>uri msg. None))
            default_settings (seed_registry []) (only_payload (PBytes ''%PDF-1.4''))) = Inr ()"
proof -
  let ?fail = "sample_world (\<lambda>uri msg. Some (Exc IPPError ''connection refused''))"
  let ?ok = "sample_world (\<lambda>uri msg. None)"
  let ?kw = "only_payload (PBytes ''%PDF-1.4'')"
  let ?attrs = "[(''job-name'', VStr ''inventree-label''), (''copies'', VInt 1),
                 (''TrimMode'', VStr ''Strong''), (''BlankSpace'', VBool False),
                 (''FeedWhere'', VStr ''None'')]"
  have f1: "effective_feed_after_mm ?fail default_settings (selected_options ?kw) = Inr (Finite 0)"
    by code_simp
  have f2: "int_of_str ?fail (or_lit (CUPS_PORT default_settings) ''631'') = Inr 631"
    by code_simp
  have f3: "as_bytes (files ?fail) (selected_label ?kw) = Inr ''%PDF-1.4''"
    by code_simp
  have f4: "job_attrs (pdf_media_auto ?fail) (seed_registry []) ''%PDF-1.4''
           (effective_media default_settings (selected_options ?kw))
           (case opt_copies (selected_options ?kw) of None \<Rightarrow> 1 | Some c \<Rightarrow> c)
           (or_lit (opt_title (selected_options ?kw)) ''inventree-label'')
           (Finite 0) (effective_job_options default_settings (selected_options ?kw)) =
           (Inr ?attrs, seed_registry [])"
    by code_simp
  have s1: "effective_feed_after_mm ?ok default_settings (selected_options ?kw) = Inr (Finite 0)"
    by code_simp
  have s2: "int_of_str ?ok (or_lit (CUPS_PORT default_settings) ''631'') = Inr 631"
    by code_simp
  have s3: "as_bytes (files ?ok) (selected_label ?kw) = Inr ''%PDF-1.4''"
    by code_simp
  have s4: "job_attrs (pdf_media_auto ?ok) (seed_registry []) ''%PDF-1.4''
           (effective_media default_settings (selected_options ?kw))
           (case opt_copies (selected_options ?kw) of None \<Rightarrow> 1 | Some c \<Rightarrow> c)
           (or_lit (opt_title (selected_options ?kw)) ''inventree-label'')
           (Finite 0) (effective_job_options default_settings (selected_options ?kw)) =
           (Inr ?attrs, seed_registry [])"
    by code_simp
  have failed: "fst (print_label ?fail default_settings (seed_registry []) ?kw) =
       Inl (Exc RuntimeError ''IPP print failed: connection refused'')"
    using print_label_submission_outcome [OF f1 f2 f3 f4]
    by (simp add: sample_world_def)
  have submitted: "fst (print_label ?ok default_settings (seed_registry []) ?kw) = Inr ()"
    using print_label_submission_outcome [OF s1 s2 s3 s4]
    by (simp add: sample_world_def)
  from f1 f2 f3 failed submitted show ?thesis
    by (intro conjI)
qed

text \<open>
  Claim C10, as it stands, fails for the last keyword of the chain: the empty bytes
  under \<^verbatim>\<open>payload\<close> are what the \<^verbatim>\<open>or\<close> chain returns, so they are normalised and
  submitted. A printer that accepts every job makes the call succeed, and a printer that
  refuses empty documents shows that the document it was given is empty.
\<close>

theorem print_label_empty_payload_counterexample:
  "fst (print_label (sample_world (\<lambda>uri msg. None)) default_settings (seed_registry [])
          (only_payload (PBytes []))) = Inr ()
   \<and> fst (print_label
            (sample_world (\<lambda>uri msg. if message_data msg = []
                                       then Some (Exc IPPError ''empty document'') else None))
            default_settings (seed_registry []) (only_payload (PBytes []))) =
       Inl (Exc RuntimeError ''IPP print failed: empty document'')"
proof -
  have accepted: "fst (print_label (sample_world (\<lambda>uri msg. None)) default_settings
          (seed_registry []) (only_payload (PBytes []))) = Inr ()"
    by code_simp
  have empty_seen: "fst (print_label
            (sample_world (\<lambda>uri msg. if message_data msg = []
                                       then Some (Exc IPPError ''empty document'') else None))
            default_settings (seed_registry []) (only_payload (PBytes []))) =
       Inl (Exc RuntimeError ''IPP print failed: empty document'')"
    by code_simp
  from accepted empty_seen show ?thesis
    by (intro conjI)
qed

text \<open>
  Claim C10, amended. When the values under \<^verbatim>\<open>pdf_data\<close>, \<^verbatim>\<open>label\<close> and \<^verbatim>\<open>data\<close>
  are all false (absent, or empty bytes as the claim has it) and the option conversions
  succeed: with nothing under \<^verbatim>\<open>payload\<close>, \<^verbatim>\<open>print_label\<close> raises the ValueError
  \<^verbatim>\<open>No label payload provided\<close> and submits nothing; with the empty bytes under
  \<^verbatim>\<open>payload\<close>, its outcome is that of submitting the empty document.
\<close>

theorem print_label_empty_bytes:
  assumes "effective_feed_after_mm w st (selected_options kw) = Inr feed"
    and "int_of_str w (or_lit (CUPS_PORT st) ''631'') = Inr port"
    and "\<not> truthy (kw_pdf_data kw)" and "\<not> truthy (kw_label kw)" and "\<not> truthy (kw_data kw)"
  shows "(kw_payload kw = PNone \<longrightarrow>
            print_label w st reg kw = (Inl (Exc ValueError ''No label payload provided''), reg))
    \<and> (kw_payload kw = PBytes [] \<longrightarrow>
          print_label w st reg kw =
            (case print_via_ipp w reg (or_lit (CUPS_HOST st) ''portterm'') port
                    (or_lit (CUPS_QUEUE st) ''devterm_printer'') []
                    (effective_media st (selected_options kw))
                    (case opt_copies (selected_options kw) of None \<Rightarrow> 1 | Some c \<Rightarrow> c)
                    (or_lit (opt_title (selected_options kw)) ''inventree-label'')
                    feed (effective_job_options st (selected_options kw)) of
               (Inl (Exc ty msg), reg') \<Rightarrow>
                 (Inl (Exc RuntimeError (''IPP print failed: '' @ msg)), reg')
             | (Inr u, reg') \<Rightarrow> (Inr (), reg')))"
  by (simp add: print_label_after_conversions [OF assms(1,2)]
      selected_label_last [OF assms(3,4,5)] as_bytes_def)

text \<open>
  The empty bytes under each of the first three keywords, and under the last one.
\<close>

theorem print_label_empty_bytes_witness:
  "fst (print_label (sample_world (\<lambda>uri msg. None)) default_settings (seed_registry [])
          ((only_payload PNone)\<lparr>kw_pdf_data := PBytes []\<rparr>)) =
     Inl (Exc ValueError ''No label payload provided'')
   \<and> fst (print_label (sample_world (\<lambda>uri msg. None)) default_settings (seed_registry [])
          ((only_payload PNone)\<lparr>kw_label := PBytes []\<rparr>)) =
     Inl (Exc ValueError ''No label payload provided'')
   \<and> fst (print_label (sample_world (\<lambda>uri msg. None)) default_settings (seed_registry [])
          ((only_payload PNone)\<lparr>kw_data := PBytes []\<rparr>)) =
     Inl (Exc ValueError ''No label payload provided'')
   \<and> fst (print_label (sample_world (\<lambda>uri msg. None)) default_settings (seed_registry [])
          (only_payload (PBytes []))) = Inr ()"
proof -
  let ?w = "sample_world (\<lambda>uri msg. None)"
  let ?reg = "seed_registry []"
  have conv: "effective_feed_after_mm ?w default_settings (selected_options kw) = Inr (Finite 0)"
    if "kw_printing_options kw = None" for kw
    using that
    by (simp add: effective_feed_after_mm_def selected_options_def default_settings_def
        sample_world_def)
  have port: "int_of_str ?w (or_lit (CUPS_PORT default_settings) ''631'') = Inr 631"
    by (simp add: default_settings_def sample_world_def or_lit_def)
  have a: "fst (print_label ?w default_settings ?reg ((only_payload PNone)\<lparr>kw_pdf_data := PBytes []\<rparr>)) =
     Inl (Exc ValueError ''No label payload provided'')"
    using print_label_empty_bytes [OF conv port, of "(only_payload PNone)\<lparr>kw_pdf_data := PBytes []\<rparr>" ?reg]
    by (simp add: only_payload_def truthy_def)
  have b: "fst (print_label ?w default_settings ?reg ((only_payload PNone)\<lparr>kw_label := PBytes []\<rparr>)) =
     Inl (Exc ValueError ''No label payload provided'')"
    using print_label_empty_bytes [OF conv port, of "(only_payload PNone)\<lparr>kw_label := PBytes []\<rparr>" ?reg]
    by (simp add: only_payload_def truthy_def)
  have c: "fst (print_label ?w default_settings ?reg ((only_payload PNone)\<lparr>kw_data := PBytes []\<rparr>)) =
     Inl (Exc ValueError ''No label payload provided'')"
    using print_label_empty_bytes [OF conv port, of "(only_payload PNone)\<lparr>kw_data := PBytes []\<rparr>" ?reg]
    by (simp add: only_payload_def truthy_def)
  have rhs: "fst (case print_via_ipp ?w ?reg (or_lit (CUPS_HOST default_settings) ''portterm'') 631
                    (or_lit (CUPS_QUEUE default_settings) ''devterm_printer'') []
                    (effective_media default_settings (selected_options (only_payload (PBytes []))))
                    (case opt_copies (selected_options (only_payload (PBytes []))) of
                       None \<Rightarrow> 1 | Some c \<Rightarrow> c)
                    (or_lit (opt_title (selected_options (only_payload (PBytes [])))) ''inventree-label'')
                    (Finite 0)
                    (effective_job_options default_settings
                       (selected_options (only_payload (PBytes [])))) of
               (Inl (Exc ty msg), reg') \<Rightarrow>
                 (Inl (Exc RuntimeError (''IPP print failed: '' @ msg)), reg')
             | (Inr u, reg') \<Rightarrow> (Inr (), reg')) = Inr ()"
    by code_simp
  have d: "fst (print_label ?w default_settings ?reg (only_payload (PBytes []))) = Inr ()"
    using print_label_empty_bytes [OF conv port, of "only_payload (PBytes [])" ?reg] rhs
    by (simp add: only_payload_def truthy_def)
  from a b c d show ?thesis
    by (intro conjI)
qed

end
